theory Spec2Isabelle
  imports Complex_Main
begin

section \<open>BankGuard AI: response engine and behavioural collector\<close>

text \<open>
  A shallow embedding of two parts of the repository.

  \<^item> The response engines: \<^verbatim>\<open>FraudDetectionService\<close> of
    \<^verbatim>\<open>server/src/services/fraudDetection.ts\<close> and
    \<^verbatim>\<open>MainActivity.determineSecurityResponse\<close> of the Android client.
  \<^item> The on-device \<^verbatim>\<open>BehavioralBiometricsCollector\<close> (Kotlin, package
    \<^verbatim>\<open>com.bankguard.ai.biometrics\<close>, the file \<^verbatim>\<open>unnamed/part_000\<close> of the sources,
    called the collector source below): its four event buffers, the ingestion handlers,
    feature extraction and the periodic processing.

  Conventions. A JavaScript \<^verbatim>\<open>number\<close> and a Kotlin \<^verbatim>\<open>Float\<close> that carry a
  score are modelled as \<^typ>\<open>real\<close>: comparisons are those of the denoted numbers, and
  a score that is NaN is outside the model. The features computed on the device are
  \<^verbatim>\<open>Float\<close> values with their infinities and NaN; what is modelled of their rounding
  is said where they are defined.
  A Kotlin \<^verbatim>\<open>Long\<close> or \<^verbatim>\<open>Int\<close> and a millisecond time stamp are \<^typ>\<open>int\<close>
  (no value here comes near the 64-bit range). Every reading of a clock
  (\<^verbatim>\<open>Date.now()\<close>, \<^verbatim>\<open>System.currentTimeMillis()\<close>) and every answer of an external
  collaborator (the privacy manager, the database, the similarity service) is an
  explicit argument. The collector is modelled one call at a time: its handlers and its
  processing run on other threads in the source, and interleavings inside a call are
  outside the model.
\<close>

subsection \<open>Server: data model (fraudDetection.ts, lines 23--61)\<close>

record BehavioralMetrics =
  userId :: string
  sessionId :: string
  timestamp :: int
  typingRhythm :: "real list"
  touchDynamics :: "real list"
  deviceOrientation :: "real list"
  navigationPattern :: "real list"
  riskScore :: real
  anomalyFlags :: "string list"
  confidenceLevel :: real
  deviceFingerprint :: string
  locationHash :: "string option"
  timeOfDay :: int
  dayOfWeek :: int

datatype response_type = silent_faceid | otp_challenge | session_termination | account_lock

datatype severity_level = low | medium | high | critical

text \<open>\<^verbatim>\<open>expiresAt\<close> is optional in the source; a date is its epoch milliseconds.\<close>

record SecurityResponse =
  rtype :: response_type
  severity :: severity_level
  message :: string
  requiresUserAction :: bool
  expiresAt :: "int option"

definition RISK_LOW :: real where "RISK_LOW = 0.3"
definition RISK_MEDIUM :: real where "RISK_MEDIUM = 0.6"
definition RISK_HIGH :: real where "RISK_HIGH = 0.8"
definition RISK_CRITICAL :: real where "RISK_CRITICAL = 0.95"

subsection \<open>Server: the response decision (fraudDetection.ts, lines 178--245)\<close>

text \<open>\<^verbatim>\<open>anomalyFlags.includes(s)\<close> is membership in the array.\<close>

definition selectAuthenticationMethod :: "string list \<Rightarrow> response_type" where
  "selectAuthenticationMethod flags =
     (if ''device_anomaly'' \<in> set flags \<or> ''location_anomaly'' \<in> set flags
      then silent_faceid
      else if ''typing_anomaly'' \<in> set flags \<or> ''navigation_anomaly'' \<in> set flags
      then otp_challenge
      else silent_faceid)"

text \<open>
  The first argument is the value \<^verbatim>\<open>Date.now()\<close> returns when the medium branch builds
  its expiry. \<^const>\<open>None\<close> is the source's \<^verbatim>\<open>null\<close>.
\<close>

definition determineSecurityResponse :: "int \<Rightarrow> BehavioralMetrics \<Rightarrow> SecurityResponse option" where
  "determineSecurityResponse now metrics =
     (if riskScore metrics < RISK_LOW then None
      else if riskScore metrics \<ge> RISK_CRITICAL then
        Some \<lparr>rtype = account_lock, severity = critical,
          message = ''Suspicious activity detected. Account temporarily locked for security.'',
          requiresUserAction = True, expiresAt = None\<rparr>
      else if riskScore metrics \<ge> RISK_HIGH then
        Some \<lparr>rtype = session_termination, severity = high,
          message = ''Session terminated due to unusual activity patterns.'',
          requiresUserAction = True, expiresAt = None\<rparr>
      else if riskScore metrics \<ge> RISK_MEDIUM then
        Some \<lparr>rtype = selectAuthenticationMethod (anomalyFlags metrics), severity = medium,
          message = ''Additional verification required for security.'',
          requiresUserAction = True, expiresAt = Some (now + 5 * 60 * 1000)\<rparr>
      else
        Some \<lparr>rtype = silent_faceid, severity = low,
          message = ''Background security check in progress.'',
          requiresUserAction = False, expiresAt = None\<rparr>)"

subsection \<open>Android client: feature values\<close>

text \<open>
  A feature computed on the device is a Kotlin \<^verbatim>\<open>Float\<close>. Two divisions of the collector
  can divide by zero, so a feature value is a real number, an infinity or NaN; the
  literal \<^verbatim>\<open>0f\<close> is \<open>0\<close>.
\<close>

datatype fval = Num real | PosInfinity | NegInfinity | NaN

instantiation fval :: zero
begin

definition zero_fval :: fval where
  "zero_fval = Num 0"

instance ..

end

subsection \<open>Android client: the response decision (MainActivity.kt, lines 350--385)\<close>

text \<open>
  The Kotlin classes \<^verbatim>\<open>SecurityResponse\<close> and \<^verbatim>\<open>BehavioralMetrics\<close> are imported by
  the activity and the collector but their declarations are not among the sources; the
  records below hold exactly the named arguments with which the two are constructed.
\<close>

datatype Type = ACCOUNT_LOCK | SESSION_TERMINATION | OTP_CHALLENGE | SILENT_FACEID

datatype Severity = CRITICAL | HIGH | MEDIUM | LOW

record DeviceSecurityResponse =
  d_type :: Type
  d_severity :: Severity
  d_message :: string
  d_requiresUserAction :: bool

record DeviceMetrics =
  d_userId :: string
  d_sessionId :: string
  d_timestamp :: int
  d_typingRhythm :: "fval list"
  d_touchDynamics :: "fval list"
  d_deviceOrientation :: "fval list"
  d_navigationPattern :: "fval list"
  d_deviceFingerprint :: string
  d_timeOfDay :: int
  d_dayOfWeek :: int

text \<open>The \<^verbatim>\<open>when\<close> takes the first branch whose condition holds; the metrics are not read.\<close>

definition deviceDetermineSecurityResponse :: "real \<Rightarrow> DeviceMetrics \<Rightarrow> DeviceSecurityResponse option" where
  "deviceDetermineSecurityResponse score metrics =
     (if score \<ge> 0.95 then
        Some \<lparr>d_type = ACCOUNT_LOCK, d_severity = CRITICAL,
          d_message = ''Critical security threat detected. Account locked.'',
          d_requiresUserAction = True\<rparr>
      else if score \<ge> 0.8 then
        Some \<lparr>d_type = SESSION_TERMINATION, d_severity = HIGH,
          d_message = ''High risk activity detected. Session terminated.'',
          d_requiresUserAction = True\<rparr>
      else if score \<ge> 0.6 then
        Some \<lparr>d_type = OTP_CHALLENGE, d_severity = MEDIUM,
          d_message = ''Additional verification required.'',
          d_requiresUserAction = True\<rparr>
      else if score \<ge> 0.3 then
        Some \<lparr>d_type = SILENT_FACEID, d_severity = LOW,
          d_message = ''Background security check.'',
          d_requiresUserAction = False\<rparr>
      else None)"

subsection \<open>Server: processing one record (fraudDetection.ts, lines 87--173 and 250--328)\<close>

text \<open>
  The external calls of \<^verbatim>\<open>processBehavioralMetrics\<close> are answered by an environment:
  whether the insert of the anonymized record reports an error, what the similarity
  service returns (\<^const>\<open>None\<close> when \<^verbatim>\<open>queryFraudPatterns\<close> throws), whether the
  insert of the analysis and the creation of the alert fail. The function returns what
  it did, in order (the calls to the database, the similarity service, the alert service
  and the socket, and the lines it wrote to the logger), and either the error it throws
  or the response. A log line is its fixed text; the text of the query
  (\<^verbatim>\<open>buildRAGQuery\<close>) and the hashed user id are not carried.
\<close>

record ServiceEnv =
  clock :: int
  metricsInsertFails :: bool
  ragAnswer :: "string list option"
  analysisInsertFails :: bool
  createAlertFails :: bool

datatype service_error = InvalidMetrics | InvalidTimeValue | StoreError

record Alert =
  a_sessionId :: string
  a_riskScore :: real
  a_severity :: severity_level
  a_responseType :: response_type
  a_anomalyFlags :: "string list"

datatype call =
    LogInfo string
  | LogError string
  | InsertMetrics string
  | QueryFraudPatterns string
  | InsertAnalysis string nat
  | CreateAlert Alert
  | EmitFraudAlert Alert

definition validateMetrics :: "BehavioralMetrics \<Rightarrow> bool" where
  "validateMetrics metrics =
     (if userId metrics = [] \<or> sessionId metrics = [] \<or> timestamp metrics = 0 then False
      else if riskScore metrics < 0 \<or> riskScore metrics > 1 then False
      else if confidenceLevel metrics < 0 \<or> confidenceLevel metrics > 1 then False
      else True)"

text \<open>
  \<^verbatim>\<open>new Date(t).toISOString()\<close> throws a \<^verbatim>\<open>RangeError\<close> (invalid time value) when
  \<open>t\<close> lies outside the range of a date, 8.64e15 ms on either side of the epoch.
\<close>

definition validTimeValue :: "int \<Rightarrow> bool" where
  "validTimeValue t = (\<bar>t\<bar> \<le> 8640000000000000)"

text \<open>
  \<^verbatim>\<open>storeAnonymizedMetrics\<close> builds the anonymized record, the ISO date of the time
  stamp in it, before it inserts; it logs and rethrows whatever its body throws.
\<close>

definition storeAnonymizedMetrics :: "ServiceEnv \<Rightarrow> BehavioralMetrics \<Rightarrow> call list \<times> (service_error + unit)" where
  "storeAnonymizedMetrics env metrics =
     (if \<not> validTimeValue (timestamp metrics) then
        ([LogError ''Error storing anonymized metrics:''], Inl InvalidTimeValue)
      else if metricsInsertFails env then
        ([InsertMetrics (sessionId metrics), LogError ''Error storing anonymized metrics:''],
         Inl StoreError)
      else
        ([InsertMetrics (sessionId metrics), LogInfo ''Stored anonymized metrics for session''],
         Inr ()))"

text \<open>\<^verbatim>\<open>storeFraudAnalysis\<close> catches the error of its insert and logs it.\<close>

definition storeFraudAnalysis :: "ServiceEnv \<Rightarrow> string \<Rightarrow> string list \<Rightarrow> call list" where
  "storeFraudAnalysis env session patterns =
     (if analysisInsertFails env
      then [InsertAnalysis session (length patterns), LogError ''Error storing fraud analysis:'']
      else [InsertAnalysis session (length patterns)])"

text \<open>
  \<^verbatim>\<open>analyzeWithRAG\<close> catches every error of its body and logs it. The query call
  carries the session it was made for.
\<close>

definition analyzeWithRAG :: "ServiceEnv \<Rightarrow> BehavioralMetrics \<Rightarrow> call list" where
  "analyzeWithRAG env metrics =
     QueryFraudPatterns (sessionId metrics) #
     (case ragAnswer env of
        None \<Rightarrow> [LogError ''Error analyzing with RAG system:'']
      | Some similarPatterns \<Rightarrow>
          if length similarPatterns > 0
          then LogInfo ''Found similar fraud patterns for session'' #
               storeFraudAnalysis env (sessionId metrics) similarPatterns
          else [])"

text \<open>
  \<^verbatim>\<open>sendRealTimeAlert\<close> stores the alert, then emits it on the socket; an error of
  \<^verbatim>\<open>createAlert\<close> is caught and logged, and the emit is then skipped.
\<close>

definition sendRealTimeAlert :: "ServiceEnv \<Rightarrow> BehavioralMetrics \<Rightarrow> SecurityResponse \<Rightarrow> call list" where
  "sendRealTimeAlert env metrics response =
     (let alert = \<lparr>a_sessionId = sessionId metrics, a_riskScore = riskScore metrics,
            a_severity = severity response, a_responseType = rtype response,
            a_anomalyFlags = anomalyFlags metrics\<rparr>
      in if createAlertFails env
         then [CreateAlert alert, LogError ''Error sending real-time alert:'']
         else [CreateAlert alert, EmitFraudAlert alert,
               LogInfo ''Sent real-time alert for session''])"

text \<open>
  The body of \<^verbatim>\<open>processBehavioralMetrics\<close> runs in a \<^verbatim>\<open>try\<close> whose handler logs
  and rethrows: the failed validation and the errors of the store end the call.
\<close>

definition processBehavioralMetrics ::
    "ServiceEnv \<Rightarrow> BehavioralMetrics \<Rightarrow> call list \<times> (service_error + SecurityResponse option)" where
  "processBehavioralMetrics env metrics =
     (if \<not> validateMetrics metrics then
        ([LogInfo ''Processing behavioral metrics for session'',
          LogError ''Error processing behavioral metrics:''], Inl InvalidMetrics)
      else
        case storeAnonymizedMetrics env metrics of
          (stored, Inl e) \<Rightarrow>
            (LogInfo ''Processing behavioral metrics for session'' # stored @
               [LogError ''Error processing behavioral metrics:''], Inl e)
        | (stored, Inr u) \<Rightarrow>
            let response = determineSecurityResponse (clock env) metrics;
                rag = (if riskScore metrics > RISK_MEDIUM then analyzeWithRAG env metrics else []);
                alert = (case response of None \<Rightarrow> []
                         | Some r \<Rightarrow> sendRealTimeAlert env metrics r)
            in (LogInfo ''Processing behavioral metrics for session'' # stored @ rag @ alert,
                Inr response))"

text \<open>
  A call gets past the store when the record is valid, its time stamp is within the range
  of a date and the insert works.
\<close>

definition stored :: "ServiceEnv \<Rightarrow> BehavioralMetrics \<Rightarrow> bool" where
  "stored env m \<longleftrightarrow>
     validateMetrics m \<and> \<bar>timestamp m\<bar> \<le> 8640000000000000 \<and> \<not> metricsInsertFails env"

text \<open>The calls that dispatch the response to the dashboard.\<close>

definition isAlertCall :: "call \<Rightarrow> bool" where
  "isAlertCall c = (case c of CreateAlert a \<Rightarrow> True | EmitFraudAlert a \<Rightarrow> True | _ \<Rightarrow> False)"

definition isRagQuery :: "call \<Rightarrow> bool" where
  "isRagQuery c = (case c of QueryFraudPatterns s \<Rightarrow> True | _ \<Rightarrow> False)"

text \<open>
  A session on the server is the sequence of records posted with one session id, each
  handled by one call; the service keeps no field that a call writes, so the responses of
  a session are the responses of its records, in order. Each record comes with the clock
  reading of its call.
\<close>

definition sessionResponses :: "(int \<times> BehavioralMetrics) list \<Rightarrow> SecurityResponse option list" where
  "sessionResponses ticks = map (\<lambda>(now, metrics). determineSecurityResponse now metrics) ticks"

definition deviceSessionResponses :: "(real \<times> DeviceMetrics) list \<Rightarrow> DeviceSecurityResponse option list" where
  "deviceSessionResponses ticks = map (\<lambda>(score, metrics). deviceDetermineSecurityResponse score metrics) ticks"

text \<open>The responses that end a session: termination and lock.\<close>

definition isTerminal :: "SecurityResponse option \<Rightarrow> bool" where
  "isTerminal response =
     (case response of None \<Rightarrow> False
      | Some r \<Rightarrow> rtype r = session_termination \<or> rtype r = account_lock)"

definition deviceIsTerminal :: "DeviceSecurityResponse option \<Rightarrow> bool" where
  "deviceIsTerminal response =
     (case response of None \<Rightarrow> False
      | Some r \<Rightarrow> d_type r = SESSION_TERMINATION \<or> d_type r = ACCOUNT_LOCK)"

text \<open>The part of a response that does not depend on the clock.\<close>

definition decision :: "SecurityResponse \<Rightarrow> response_type \<times> severity_level \<times> string \<times> bool" where
  "decision r = (rtype r, severity r, message r, requiresUserAction r)"

subsection \<open>Collector: events, buffers and constants (collector source, lines 55--119)\<close>

definition COLLECTION_INTERVAL_MS :: int where "COLLECTION_INTERVAL_MS = 5000"
definition MAX_TOUCH_EVENTS :: nat where "MAX_TOUCH_EVENTS = 100"
definition MAX_TYPING_EVENTS :: nat where "MAX_TYPING_EVENTS = 50"

text \<open>The Android platform constant \<^verbatim>\<open>Sensor.TYPE_ACCELEROMETER\<close>.\<close>

definition TYPE_ACCELEROMETER :: int where "TYPE_ACCELEROMETER = 1"

record TouchEvent =
  te_timestamp :: int
  te_x :: real
  te_y :: real
  te_pressure :: real
  te_size :: real
  te_duration :: int
  te_action :: int

record TypingEvent =
  ty_timestamp :: int
  ty_keyCode :: int
  ty_dwellTime :: int
  ty_flightTime :: int
  ty_pressure :: real

record SensorData =
  sd_timestamp :: int
  sd_sensorType :: int
  sd_values :: "real list"
  sd_accuracy :: int

record NavigationEvent =
  nv_timestamp :: int
  nv_screenName :: string
  nv_action :: string
  nv_duration :: int

text \<open>What the handlers read of the platform's \<^verbatim>\<open>MotionEvent\<close> and \<^verbatim>\<open>SensorEvent\<close>.\<close>

record MotionEvent =
  me_x :: real
  me_y :: real
  me_pressure :: real
  me_size :: real
  me_eventTime :: int
  me_downTime :: int
  me_action :: int

record SensorEvent =
  se_sensorType :: int
  se_values :: "real list"
  se_accuracy :: int

text \<open>The mutable fields of the collector. The four lists are its signal buffers.\<close>

record Collector =
  isCollecting :: bool
  touchEvents :: "TouchEvent list"
  typingEvents :: "TypingEvent list"
  sensorData :: "SensorData list"
  navigationEvents :: "NavigationEvent list"
  collectorSessionId :: string
  sessionStartTime :: int

text \<open>
  The exceptions of the collector: a read or removal outside a list, the missing consent
  at the start, and any exception thrown by a collaborator (the privacy manager, the
  data callback).
\<close>

datatype exn = IndexOutOfBounds | SecurityException | CollaboratorException

subsection \<open>Collector: ingestion (lines 376--487)\<close>

text \<open>
  \<^verbatim>\<open>removeAt(0)\<close> removes the first element and throws on an empty list. Each handler
  runs its body in a \<^verbatim>\<open>try\<close> whose handler only logs, so an exception leaves the
  buffer as it was when thrown.

  The arguments \<open>hasUserConsent\<close> and \<open>now\<close> are the answers of
  \<^verbatim>\<open>privacyManager.hasUserConsent()\<close> and \<^verbatim>\<open>System.currentTimeMillis()\<close> during the
  call. \<^verbatim>\<open>onTouchEvent\<close> returns \<^verbatim>\<open>false\<close> on every path; the model returns the
  collector.
\<close>

definition removeAt0 :: "'a list \<Rightarrow> exn + 'a list" where
  "removeAt0 xs = (case xs of [] \<Rightarrow> Inl IndexOutOfBounds | _ # rest \<Rightarrow> Inr rest)"

definition onTouchEvent :: "bool \<Rightarrow> int \<Rightarrow> MotionEvent \<Rightarrow> Collector \<Rightarrow> Collector" where
  "onTouchEvent hasUserConsent now event c =
     (if \<not> isCollecting c \<or> \<not> hasUserConsent then c
      else
        let touchEvent = \<lparr>te_timestamp = now, te_x = me_x event, te_y = me_y event,
              te_pressure = me_pressure event, te_size = me_size event,
              te_duration = me_eventTime event - me_downTime event,
              te_action = me_action event\<rparr>
        in if length (touchEvents c) < MAX_TOUCH_EVENTS
           then c\<lparr>touchEvents := touchEvents c @ [touchEvent]\<rparr>
           else (case removeAt0 (touchEvents c) of
                   Inl e \<Rightarrow> c
                 | Inr rest \<Rightarrow> c\<lparr>touchEvents := rest @ [touchEvent]\<rparr>))"

definition onTypingEvent :: "bool \<Rightarrow> int \<Rightarrow> int \<Rightarrow> int \<Rightarrow> int \<Rightarrow> real \<Rightarrow> Collector \<Rightarrow> Collector" where
  "onTypingEvent hasUserConsent now keyCode dwellTime flightTime pressure c =
     (if \<not> isCollecting c \<or> \<not> hasUserConsent then c
      else
        let typingEvent = \<lparr>ty_timestamp = now, ty_keyCode = keyCode, ty_dwellTime = dwellTime,
              ty_flightTime = flightTime, ty_pressure = pressure\<rparr>
        in if length (typingEvents c) < MAX_TYPING_EVENTS
           then c\<lparr>typingEvents := typingEvents c @ [typingEvent]\<rparr>
           else (case removeAt0 (typingEvents c) of
                   Inl e \<Rightarrow> c
                 | Inr rest \<Rightarrow> c\<lparr>typingEvents := rest @ [typingEvent]\<rparr>))"

definition onNavigationEvent :: "bool \<Rightarrow> int \<Rightarrow> string \<Rightarrow> string \<Rightarrow> int \<Rightarrow> Collector \<Rightarrow> Collector" where
  "onNavigationEvent hasUserConsent now screenName action duration c =
     (if \<not> isCollecting c \<or> \<not> hasUserConsent then c
      else
        let navEvent = \<lparr>nv_timestamp = now, nv_screenName = screenName, nv_action = action,
              nv_duration = duration\<rparr>
        in c\<lparr>navigationEvents := navigationEvents c @ [navEvent]\<rparr>)"

text \<open>
  The sensor callback takes a nullable event. It does not call the privacy manager, so
  it has no consent argument. The sample is added first and the oldest one removed
  afterwards.
\<close>

definition onSensorChanged :: "int \<Rightarrow> SensorEvent option \<Rightarrow> Collector \<Rightarrow> Collector" where
  "onSensorChanged now event c =
     (if \<not> isCollecting c \<or> event = None then c
      else
        case event of
          None \<Rightarrow> c
        | Some ev \<Rightarrow>
            let sample = \<lparr>sd_timestamp = now, sd_sensorType = se_sensorType ev,
                  sd_values = se_values ev, sd_accuracy = se_accuracy ev\<rparr>;
                added = sensorData c @ [sample]
            in if length added > 1000
               then (case removeAt0 added of
                       Inl e \<Rightarrow> c\<lparr>sensorData := added\<rparr>
                     | Inr rest \<Rightarrow> c\<lparr>sensorData := rest\<rparr>)
               else c\<lparr>sensorData := added\<rparr>)"

text \<open>
  One call of any of the four handlers, made while the privacy manager would answer
  \<open>hasUserConsent\<close> and the clock reads \<open>now\<close>.
\<close>

datatype ingestion =
    Touch MotionEvent
  | Typing int int int real
  | Navigation string string int
  | Sensor "SensorEvent option"

fun ingest :: "bool \<Rightarrow> int \<Rightarrow> ingestion \<Rightarrow> Collector \<Rightarrow> Collector" where
  "ingest hasUserConsent now (Touch event) c = onTouchEvent hasUserConsent now event c"
| "ingest hasUserConsent now (Typing keyCode dwellTime flightTime pressure) c =
     onTypingEvent hasUserConsent now keyCode dwellTime flightTime pressure c"
| "ingest hasUserConsent now (Navigation screenName action duration) c =
     onNavigationEvent hasUserConsent now screenName action duration c"
| "ingest hasUserConsent now (Sensor event) c = onSensorChanged now event c"

text \<open>A sequence of calls, each with the consent answer and the clock reading of its moment.\<close>

fun ingestAll :: "(bool \<times> int \<times> ingestion) list \<Rightarrow> Collector \<Rightarrow> Collector" where
  "ingestAll [] c = c"
| "ingestAll ((hasUserConsent, now, i) # rest) c = ingestAll rest (ingest hasUserConsent now i c)"

subsection \<open>Collector: clearing (lines 496--513)\<close>

definition clearCollectedData :: "Collector \<Rightarrow> Collector" where
  "clearCollectedData c =
     c\<lparr>touchEvents := [], typingEvents := [], sensorData := [], navigationEvents := []\<rparr>"

text \<open>\<^verbatim>\<open>removeAll { p }\<close> keeps the elements on which \<open>p\<close> is false, in order.\<close>

definition clearOldData :: "int \<Rightarrow> Collector \<Rightarrow> Collector" where
  "clearOldData now c =
     (let cutoffTime = now - (COLLECTION_INTERVAL_MS * 2)
      in c\<lparr>touchEvents := filter (\<lambda>it. \<not> te_timestamp it < cutoffTime) (touchEvents c),
           typingEvents := filter (\<lambda>it. \<not> ty_timestamp it < cutoffTime) (typingEvents c),
           sensorData := filter (\<lambda>it. \<not> sd_timestamp it < cutoffTime) (sensorData c),
           navigationEvents := filter (\<lambda>it. \<not> nv_timestamp it < cutoffTime) (navigationEvents c)\<rparr>)"

subsection \<open>Collector: feature extraction (lines 272--371 and 526--633)\<close>

text \<open>
  Rounding. \<open>fl\<close> rounds a real to the nearest \<^verbatim>\<open>Float\<close> (24 significant bits, ties to
  the even neighbour; magnitudes in the normal range of the format). It is applied where
  rounding decides a discrete outcome: in every conversion of a \<^verbatim>\<open>Long\<close> or an
  \<^verbatim>\<open>Int\<close> to \<^verbatim>\<open>Float\<close> (\<open>toFloat\<close>) and in the product that picks the bucket of a
  value in \<open>calculateEntropy\<close>. All other \<^verbatim>\<open>Float\<close> and \<^verbatim>\<open>Double\<close> arithmetic is
  exact arithmetic on reals.
\<close>

definition roundHalfEven :: "real \<Rightarrow> int" where
  "roundHalfEven q =
     (let f = \<lfloor>q\<rfloor>; d = q - real_of_int f
      in if d < 1 / 2 then f else if d > 1 / 2 then f + 1 else if even f then f else f + 1)"

definition fl :: "real \<Rightarrow> real" where
  "fl v =
     (if v = 0 then 0
      else
        let ulp = 2 powr (real_of_int \<lfloor>log 2 \<bar>v\<bar>\<rfloor> - 23)
        in real_of_int (roundHalfEven (v / ulp)) * ulp)"

definition toFloat :: "int \<Rightarrow> real" where
  "toFloat n = fl (real_of_int n)"

text \<open>
  Special values. \<^verbatim>\<open>1000f / d\<close> with \<open>d = 0\<close> is the positive infinity. Sums and
  differences follow IEEE 754: NaN is absorbing, the two infinities cancel to NaN, an
  infinity absorbs a number. Kotlin's \<^verbatim>\<open>average()\<close> sums in \<^verbatim>\<open>Double\<close>, divides by
  the count and is NaN on an empty list.
\<close>

definition fadd :: "fval \<Rightarrow> fval \<Rightarrow> fval" where
  "fadd a b =
     (case (a, b) of
        (NaN, _) \<Rightarrow> NaN
      | (_, NaN) \<Rightarrow> NaN
      | (PosInfinity, NegInfinity) \<Rightarrow> NaN
      | (NegInfinity, PosInfinity) \<Rightarrow> NaN
      | (PosInfinity, _) \<Rightarrow> PosInfinity
      | (_, PosInfinity) \<Rightarrow> PosInfinity
      | (NegInfinity, _) \<Rightarrow> NegInfinity
      | (_, NegInfinity) \<Rightarrow> NegInfinity
      | (Num x, Num y) \<Rightarrow> Num (x + y))"

definition fneg :: "fval \<Rightarrow> fval" where
  "fneg a =
     (case a of Num x \<Rightarrow> Num (- x) | PosInfinity \<Rightarrow> NegInfinity
      | NegInfinity \<Rightarrow> PosInfinity | NaN \<Rightarrow> NaN)"

definition fsub :: "fval \<Rightarrow> fval \<Rightarrow> fval" where
  "fsub a b = fadd a (fneg b)"

definition fabs :: "fval \<Rightarrow> fval" where
  "fabs a =
     (case a of Num x \<Rightarrow> Num \<bar>x\<bar> | PosInfinity \<Rightarrow> PosInfinity
      | NegInfinity \<Rightarrow> PosInfinity | NaN \<Rightarrow> NaN)"

definition faverage :: "fval list \<Rightarrow> fval" where
  "faverage xs =
     (if xs = [] then NaN
      else case foldl fadd (Num 0) xs of
             Num acc \<Rightarrow> Num (acc / real (length xs))
           | special \<Rightarrow> special)"

text \<open>\<^verbatim>\<open>1000f / d.toFloat()\<close> for an interval \<open>d\<close> of type \<^verbatim>\<open>Long\<close>.\<close>

definition perSecond :: "int \<Rightarrow> fval" where
  "perSecond d = (if d = 0 then PosInfinity else Num (1000 / toFloat d))"

text \<open>
  The averages below are taken of non-empty lists of numbers, where the source's
  \<^verbatim>\<open>average()\<close> is the sum divided by the count.
\<close>

definition average :: "real list \<Rightarrow> real" where
  "average xs = sum_list xs / real (length xs)"

definition standardDeviation :: "real list \<Rightarrow> real" where
  "standardDeviation xs =
     (let mean = average xs;
          variance = average (map (\<lambda>it. (it - mean) * (it - mean)) xs)
      in sqrt variance)"

definition zipWithNext :: "('a \<Rightarrow> 'a \<Rightarrow> 'b) \<Rightarrow> 'a list \<Rightarrow> 'b list" where
  "zipWithNext f xs = map (\<lambda>(a, b). f a b) (zip xs (tl xs))"

text \<open>\<^verbatim>\<open>Float.toInt()\<close>: towards zero, saturating at the bounds of \<^verbatim>\<open>Int\<close>.\<close>

definition toInt :: "real \<Rightarrow> int" where
  "toInt v = max (- 2147483648) (min 2147483647 (if v \<ge> 0 then \<lfloor>v\<rfloor> else \<lceil>v\<rceil>))"

text \<open>
  \<^verbatim>\<open>groupingBy { (it * 10).toInt() }.eachCount()\<close> counts the values of each bucket; the
  sum runs over the buckets. The argument holds \<^verbatim>\<open>Float\<close> values, and the product with
  10 is rounded before it is truncated.
\<close>

definition calculateEntropy :: "real list \<Rightarrow> real" where
  "calculateEntropy vals =
     (if vals = [] then 0
      else
        let buckets = map (\<lambda>it. toInt (fl (it * 10))) vals;
            histogram = map (\<lambda>k. count_list buckets k) (remdups buckets);
            total = toFloat (int (length vals))
        in sum_list (map (\<lambda>count. let p = toFloat (int count) / total
                                     in if p > 0 then - p * ln p else 0) histogram))"

definition calculateTypingSpeed :: "TypingEvent list \<Rightarrow> real" where
  "calculateTypingSpeed events =
     (if length events < 2 then 0
      else
        let totalTime = ty_timestamp (last events) - ty_timestamp (hd events)
        in if totalTime > 0 then toFloat (int (length events)) / (toFloat totalTime / 1000) else 0)"

definition calculateTypingConsistency :: "TypingEvent list \<Rightarrow> real" where
  "calculateTypingConsistency events =
     (if events = [] then 0
      else
        let dwellTimes = map (\<lambda>it. toFloat (ty_dwellTime it)) events;
            mean = average dwellTimes;
            variance = average (map (\<lambda>it. (it - mean) * (it - mean)) dwellTimes)
        in if mean > 0 then variance / mean else 0)"

definition calculatePressureVariation :: "TypingEvent list \<Rightarrow> real" where
  "calculatePressureVariation events =
     (if events = [] then 0 else standardDeviation (map ty_pressure events))"

definition calculateRhythmEntropy :: "TypingEvent list \<Rightarrow> real" where
  "calculateRhythmEntropy events =
     (if length events < 2 then 0
      else
        let intervals = zipWithNext (\<lambda>a b. ty_timestamp b - ty_timestamp a) events
        in calculateEntropy (map toFloat intervals))"

text \<open>
  The speeds are infinite where two consecutive keystrokes carry the same time stamp;
  the result is then an infinity or NaN.
\<close>

definition calculateTypingAcceleration :: "TypingEvent list \<Rightarrow> fval" where
  "calculateTypingAcceleration events =
     (if length events < 3 then 0
      else
        let speeds = zipWithNext (\<lambda>a b. perSecond (ty_timestamp b - ty_timestamp a)) events
        in faverage (map fabs (zipWithNext (\<lambda>a b. fsub b a) speeds)))"

definition touchVelocities :: "TouchEvent list \<Rightarrow> real list" where
  "touchVelocities events =
     zipWithNext (\<lambda>a b.
        let dx = te_x b - te_x a;
            dy = te_y b - te_y a;
            dt = toFloat (te_timestamp b - te_timestamp a)
        in if dt > 0 then sqrt (dx * dx + dy * dy) / dt else 0) events"

definition calculateTouchVelocity :: "TouchEvent list \<Rightarrow> real" where
  "calculateTouchVelocity events =
     (if length events < 2 then 0 else average (touchVelocities events))"

definition calculateTouchAcceleration :: "TouchEvent list \<Rightarrow> real" where
  "calculateTouchAcceleration events =
     (if length events < 3 then 0
      else average (zipWithNext (\<lambda>a b. abs (b - a)) (touchVelocities events)))"

definition calculateTouchPattern :: "TouchEvent list \<Rightarrow> real" where
  "calculateTouchPattern events =
     (if events = [] then 0 else standardDeviation (map te_pressure events))"

definition extractTypingRhythm :: "TypingEvent list \<Rightarrow> fval list" where
  "extractTypingRhythm events =
     (if events = [] then replicate 10 0
      else
        let dwellTimes = map (\<lambda>it. toFloat (ty_dwellTime it)) events;
            flightTimes = map (\<lambda>it. toFloat (ty_flightTime it)) events
        in [Num (average dwellTimes),
            Num (standardDeviation dwellTimes),
            Num (average flightTimes),
            Num (standardDeviation flightTimes),
            Num (toFloat (int (length events))),
            Num (calculateTypingSpeed events),
            Num (calculateTypingConsistency events),
            Num (calculatePressureVariation events),
            Num (calculateRhythmEntropy events),
            calculateTypingAcceleration events])"

definition extractTouchDynamics :: "TouchEvent list \<Rightarrow> fval list" where
  "extractTouchDynamics events =
     (if events = [] then replicate 10 0
      else
        let pressures = map te_pressure events;
            sizes = map te_size events;
            durations = map (\<lambda>it. toFloat (te_duration it)) events
        in [Num (average pressures),
            Num (standardDeviation pressures),
            Num (average sizes),
            Num (standardDeviation sizes),
            Num (average durations),
            Num (standardDeviation durations),
            Num (calculateTouchVelocity events),
            Num (calculateTouchAcceleration events),
            Num (calculateTouchPattern events),
            Num (toFloat (int (length events)))])"

text \<open>
  Reading \<^verbatim>\<open>it.values[i]\<close> throws when the array is shorter; the first failing read ends
  the extraction.
\<close>

definition valueAt :: "nat \<Rightarrow> SensorData \<Rightarrow> exn + real" where
  "valueAt i it = (if i < length (sd_values it) then Inr (sd_values it ! i) else Inl IndexOutOfBounds)"

fun mapE :: "('a \<Rightarrow> exn + 'b) \<Rightarrow> 'a list \<Rightarrow> exn + 'b list" where
  "mapE f [] = Inr []"
| "mapE f (x # xs) =
     (case f x of
        Inl e \<Rightarrow> Inl e
      | Inr y \<Rightarrow> (case mapE f xs of Inl e \<Rightarrow> Inl e | Inr ys \<Rightarrow> Inr (y # ys)))"

definition magnitude :: "SensorData \<Rightarrow> exn + real" where
  "magnitude it =
     (case valueAt 0 it of Inl e \<Rightarrow> Inl e | Inr v0 \<Rightarrow>
      case valueAt 1 it of Inl e \<Rightarrow> Inl e | Inr v1 \<Rightarrow>
      case valueAt 2 it of Inl e \<Rightarrow> Inl e | Inr v2 \<Rightarrow>
        Inr (sqrt (v0 * v0 + v1 * v1 + v2 * v2)))"

definition calculateMovementMagnitude :: "SensorData list \<Rightarrow> exn + real" where
  "calculateMovementMagnitude data =
     (if data = [] then Inr 0
      else case mapE magnitude data of Inl e \<Rightarrow> Inl e | Inr ms \<Rightarrow> Inr (average ms))"

definition calculateOrientationStability :: "SensorData list \<Rightarrow> exn + real" where
  "calculateOrientationStability data =
     (if data = [] then Inr 0
      else case mapE magnitude data of Inl e \<Rightarrow> Inl e | Inr ms \<Rightarrow> Inr (standardDeviation ms))"

definition extractDeviceOrientation :: "SensorData list \<Rightarrow> exn + fval list" where
  "extractDeviceOrientation samples =
     (let data = filter (\<lambda>it. sd_sensorType it = TYPE_ACCELEROMETER) samples
      in if data = [] then Inr (replicate 8 0)
         else
           case mapE (valueAt 0) data of Inl e \<Rightarrow> Inl e | Inr xValues \<Rightarrow>
           case mapE (valueAt 1) data of Inl e \<Rightarrow> Inl e | Inr yValues \<Rightarrow>
           case mapE (valueAt 2) data of Inl e \<Rightarrow> Inl e | Inr zValues \<Rightarrow>
           case calculateMovementMagnitude data of Inl e \<Rightarrow> Inl e | Inr movement \<Rightarrow>
           case calculateOrientationStability data of Inl e \<Rightarrow> Inl e | Inr stability \<Rightarrow>
             Inr [Num (average xValues),
                  Num (standardDeviation xValues),
                  Num (average yValues),
                  Num (standardDeviation yValues),
                  Num (average zValues),
                  Num (standardDeviation zValues),
                  Num movement,
                  Num stability])"

text \<open>
  \<^verbatim>\<open>String.hashCode()\<close>: \<open>h := 31 * h + c\<close> over the characters, in 32-bit two's
  complement (a character of the model is one byte, which is the UTF-16 unit of the
  source for ASCII names). The hash is converted to \<^verbatim>\<open>Float\<close>, so hashes that round to
  the same \<^verbatim>\<open>Float\<close> fall into one bucket.
\<close>

definition wrap32 :: "int \<Rightarrow> int" where
  "wrap32 v = (v + 2147483648) mod 4294967296 - 2147483648"

definition hashCode :: "string \<Rightarrow> int" where
  "hashCode s = foldl (\<lambda>h ch. wrap32 (31 * h + of_char ch)) 0 s"

definition calculateNavigationEntropy :: "NavigationEvent list \<Rightarrow> real" where
  "calculateNavigationEntropy events =
     (let screens = map nv_screenName events
      in calculateEntropy (map (\<lambda>it. toFloat (hashCode it)) screens))"

text \<open>The speed is the positive infinity where two consecutive events carry the same time stamp.\<close>

definition calculateNavigationSpeed :: "NavigationEvent list \<Rightarrow> fval" where
  "calculateNavigationSpeed events =
     (if length events < 2 then 0
      else
        let intervals = zipWithNext (\<lambda>a b. nv_timestamp b - nv_timestamp a) events
        in faverage (map perSecond intervals))"

definition extractNavigationPattern :: "NavigationEvent list \<Rightarrow> fval list" where
  "extractNavigationPattern events =
     (if events = [] then replicate 6 0
      else
        let durations = map (\<lambda>it. toFloat (nv_duration it)) events;
            uniqueScreens = length (remdups (map nv_screenName events))
        in [Num (toFloat (int (length events))),
            Num (toFloat (int uniqueScreens)),
            Num (average durations),
            Num (standardDeviation durations),
            Num (calculateNavigationEntropy events),
            calculateNavigationSpeed events])"

subsection \<open>Collector: the periodic processing (lines 131--267)\<close>

text \<open>
  What one run of \<^verbatim>\<open>processCollectedData\<close> meets outside the buffers: the answers of
  the privacy manager to \<^verbatim>\<open>getAnonymizedUserId()\<close> and \<^verbatim>\<open>getDeviceFingerprint()\<close>, each
  a value or an exception; the clock when the record is built; the calendar fields; the
  registered data callback, if any, which returns or throws on the record it is given;
  and the clock when \<^verbatim>\<open>clearOldData\<close> runs.
\<close>

record TickEnv =
  anonymizedUserId :: "exn + string"
  metricsTime :: int
  fingerprint :: "exn + string"
  hourOfDay :: int
  calendarDayOfWeek :: int
  dataCallback :: "(DeviceMetrics \<Rightarrow> exn + unit) option"
  purgeTime :: int

text \<open>\<^verbatim>\<open>dataCallback?.invoke(metrics)\<close>: nothing happens when no callback is registered.\<close>

definition invokeCallback :: "TickEnv \<Rightarrow> DeviceMetrics \<Rightarrow> exn + unit" where
  "invokeCallback env metrics =
     (case dataCallback env of None \<Rightarrow> Inr () | Some callback \<Rightarrow> callback metrics)"

text \<open>
  The whole body runs in one \<^verbatim>\<open>try\<close> whose handler logs the exception: the four
  extractions, the construction of the record (its arguments are evaluated in order, the
  user id before the fingerprint), the call of the data callback and, last,
  \<^verbatim>\<open>clearOldData\<close>. An exception at any step ends the run with the buffers as they are.
  The result is the collector after the run and, when the run reached its end, the
  record it built; \<^const>\<open>None\<close> stands for a run that ended in the handler. What the
  callback does with the record, and to the collector, is not part of the run.
\<close>

definition processCollectedData :: "TickEnv \<Rightarrow> Collector \<Rightarrow> Collector \<times> DeviceMetrics option" where
  "processCollectedData env c =
     (let typingRhythm' = extractTypingRhythm (typingEvents c);
          touchDynamics' = extractTouchDynamics (touchEvents c)
      in case extractDeviceOrientation (sensorData c) of
           Inl e \<Rightarrow> (c, None)
         | Inr deviceOrientation' \<Rightarrow>
             let navigationPattern' = extractNavigationPattern (navigationEvents c)
             in case anonymizedUserId env of
                  Inl e \<Rightarrow> (c, None)
                | Inr userId' \<Rightarrow>
                    case fingerprint env of
                      Inl e \<Rightarrow> (c, None)
                    | Inr deviceFingerprint' \<Rightarrow>
                        let metrics = \<lparr>d_userId = userId',
                              d_sessionId = collectorSessionId c,
                              d_timestamp = metricsTime env,
                              d_typingRhythm = typingRhythm',
                              d_touchDynamics = touchDynamics',
                              d_deviceOrientation = deviceOrientation',
                              d_navigationPattern = navigationPattern',
                              d_deviceFingerprint = deviceFingerprint',
                              d_timeOfDay = hourOfDay env,
                              d_dayOfWeek = calendarDayOfWeek env\<rparr>
                        in case invokeCallback env metrics of
                             Inl e \<Rightarrow> (c, None)
                           | Inr u \<Rightarrow> (clearOldData (purgeTime env) c, Some metrics))"


text \<open>
  \<^verbatim>\<open>startCollection\<close> with the consent answer, the new session id and the clock;
  it throws when consent is missing. \<^verbatim>\<open>stopCollection\<close> runs one last processing and
  clears the buffers.
\<close>

definition startCollection :: "bool \<Rightarrow> string \<Rightarrow> int \<Rightarrow> Collector \<Rightarrow> exn + Collector" where
  "startCollection hasUserConsent newSessionId now c =
     (if isCollecting c then Inr c
      else if \<not> hasUserConsent then Inl SecurityException
      else Inr (clearCollectedData
             (c\<lparr>isCollecting := True, collectorSessionId := newSessionId, sessionStartTime := now\<rparr>)))"

definition stopCollection :: "TickEnv \<Rightarrow> Collector \<Rightarrow> Collector \<times> DeviceMetrics option" where
  "stopCollection env c =
     (if \<not> isCollecting c then (c, None)
      else
        let (c', metrics) = processCollectedData env (c\<lparr>isCollecting := False\<rparr>)
        in (clearCollectedData c', metrics))"

subsection \<open>Concrete inputs\<close>

definition exampleMetrics :: "real \<Rightarrow> string list \<Rightarrow> BehavioralMetrics" where
  "exampleMetrics r flags =
     \<lparr>userId = ''u1'', sessionId = ''s1'', timestamp = 1700000000000,
      typingRhythm = [], touchDynamics = [], deviceOrientation = [], navigationPattern = [],
      riskScore = r, anomalyFlags = flags, confidenceLevel = 0.9,
      deviceFingerprint = ''abcdef0123456789'', locationHash = None,
      timeOfDay = 14, dayOfWeek = 2\<rparr>"

definition exampleDeviceMetrics :: DeviceMetrics where
  "exampleDeviceMetrics =
     \<lparr>d_userId = ''u1'', d_sessionId = ''s1'', d_timestamp = 1700000000000,
      d_typingRhythm = replicate 10 0, d_touchDynamics = replicate 10 0,
      d_deviceOrientation = replicate 8 0, d_navigationPattern = replicate 6 0,
      d_deviceFingerprint = ''abcdef0123456789'', d_timeOfDay = 14, d_dayOfWeek = 2\<rparr>"

text \<open>A session of two records: a critical score, then a low one five seconds later.\<close>

definition exampleSession :: "(int \<times> BehavioralMetrics) list" where
  "exampleSession =
     [(1700000000000, exampleMetrics 0.96 []), (1700000005000, exampleMetrics 0.1 [])]"

definition exampleDeviceSession :: "(real \<times> DeviceMetrics) list" where
  "exampleDeviceSession = [(0.96, exampleDeviceMetrics), (0.1, exampleDeviceMetrics)]"

definition exampleEnv :: ServiceEnv where
  "exampleEnv = \<lparr>clock = 1700000000000, metricsInsertFails = False, ragAnswer = Some [],
     analysisInsertFails = False, createAlertFails = False\<rparr>"

definition exampleSensorEvent :: SensorEvent where
  "exampleSensorEvent = \<lparr>se_sensorType = 1, se_values = [0, 0, 9.8], se_accuracy = 3\<rparr>"

definition exampleMotionEvent :: MotionEvent where
  "exampleMotionEvent = \<lparr>me_x = 120, me_y = 640, me_pressure = 0.5, me_size = 0.2,
     me_eventTime = 5030, me_downTime = 5000, me_action = 0\<rparr>"

definition emptyCollector :: "bool \<Rightarrow> Collector" where
  "emptyCollector collecting =
     \<lparr>isCollecting = collecting, touchEvents = [], typingEvents = [], sensorData = [],
      navigationEvents = [], collectorSessionId = ''s1'', sessionStartTime = 1700000000000\<rparr>"




definition exampleTickEnv :: TickEnv where
  "exampleTickEnv = \<lparr>anonymizedUserId = Inr ''anon'', metricsTime = 1700000000000,
     fingerprint = Inr ''abcdef0123456789'', hourOfDay = 14, calendarDayOfWeek = 3,
     dataCallback = Some (\<lambda>metrics. Inr ()), purgeTime = 1700000000000\<rparr>"



section \<open>Properties\<close>

lemmas thresholds = RISK_LOW_def RISK_MEDIUM_def RISK_HIGH_def RISK_CRITICAL_def

subsection \<open>Risk tiers\<close>

text \<open>
  Claim C1. The response is decided by the risk score in half-open tiers, a boundary
  value belonging to the higher tier: below 0.3 no response; from 0.3 a silent check of
  low severity that needs no user action; from 0.6 a challenge of medium severity; from
  0.8 the termination of the session, high severity, user action required; from 0.95
  the account lock, critical severity, user action required. Both engines, the server's
  and the Android client's, follow these tiers.
\<close>

theorem risk_tiers:
  "(riskScore m < 0.3 \<longrightarrow>
       determineSecurityResponse now m = None
     \<and> deviceDetermineSecurityResponse (riskScore m) dm = None)
 \<and> (0.3 \<le> riskScore m \<and> riskScore m < 0.6 \<longrightarrow>
       determineSecurityResponse now m =
         Some \<lparr>rtype = silent_faceid, severity = low,
           message = ''Background security check in progress.'',
           requiresUserAction = False, expiresAt = None\<rparr>
     \<and> deviceDetermineSecurityResponse (riskScore m) dm =
         Some \<lparr>d_type = SILENT_FACEID, d_severity = LOW,
           d_message = ''Background security check.'', d_requiresUserAction = False\<rparr>)
 \<and> (0.6 \<le> riskScore m \<and> riskScore m < 0.8 \<longrightarrow>
       (\<exists>resp. determineSecurityResponse now m = Some resp \<and> severity resp = medium
          \<and> (rtype resp = silent_faceid \<or> rtype resp = otp_challenge)
          \<and> requiresUserAction resp \<and> expiresAt resp \<noteq> None)
     \<and> deviceDetermineSecurityResponse (riskScore m) dm =
         Some \<lparr>d_type = OTP_CHALLENGE, d_severity = MEDIUM,
           d_message = ''Additional verification required.'', d_requiresUserAction = True\<rparr>)
 \<and> (0.8 \<le> riskScore m \<and> riskScore m < 0.95 \<longrightarrow>
       determineSecurityResponse now m =
         Some \<lparr>rtype = session_termination, severity = high,
           message = ''Session terminated due to unusual activity patterns.'',
           requiresUserAction = True, expiresAt = None\<rparr>
     \<and> deviceDetermineSecurityResponse (riskScore m) dm =
         Some \<lparr>d_type = SESSION_TERMINATION, d_severity = HIGH,
           d_message = ''High risk activity detected. Session terminated.'',
           d_requiresUserAction = True\<rparr>)
 \<and> (0.95 \<le> riskScore m \<longrightarrow>
       determineSecurityResponse now m =
         Some \<lparr>rtype = account_lock, severity = critical,
           message = ''Suspicious activity detected. Account temporarily locked for security.'',
           requiresUserAction = True, expiresAt = None\<rparr>
     \<and> deviceDetermineSecurityResponse (riskScore m) dm =
         Some \<lparr>d_type = ACCOUNT_LOCK, d_severity = CRITICAL,
           d_message = ''Critical security threat detected. Account locked.'',
           d_requiresUserAction = True\<rparr>)"
  by (simp add: determineSecurityResponse_def deviceDetermineSecurityResponse_def thresholds
      selectAuthenticationMethod_def)

text \<open>The four boundary scores the specification names: 0.3, 0.2999, 0.9499 and 0.95.\<close>

theorem risk_tiers_witness:
  "determineSecurityResponse 0 (exampleMetrics 0.3 []) =
         Some \<lparr>rtype = silent_faceid, severity = low,
           message = ''Background security check in progress.'',
           requiresUserAction = False, expiresAt = None\<rparr>
  \<and> determineSecurityResponse 0 (exampleMetrics 0.2999 []) = None
  \<and> determineSecurityResponse 0 (exampleMetrics 0.9499 []) =
         Some \<lparr>rtype = session_termination, severity = high,
           message = ''Session terminated due to unusual activity patterns.'',
           requiresUserAction = True, expiresAt = None\<rparr>
  \<and> determineSecurityResponse 0 (exampleMetrics 0.95 []) =
         Some \<lparr>rtype = account_lock, severity = critical,
           message = ''Suspicious activity detected. Account temporarily locked for security.'',
           requiresUserAction = True, expiresAt = None\<rparr>
  \<and> deviceDetermineSecurityResponse 0.2999 exampleDeviceMetrics = None
  \<and> deviceDetermineSecurityResponse 0.95 exampleDeviceMetrics =
         Some \<lparr>d_type = ACCOUNT_LOCK, d_severity = CRITICAL,
           d_message = ''Critical security threat detected. Account locked.'',
           d_requiresUserAction = True\<rparr>"
  using risk_tiers [of "exampleMetrics 0.3 []" 0]
    risk_tiers [of "exampleMetrics 0.2999 []" 0 exampleDeviceMetrics]
    risk_tiers [of "exampleMetrics 0.9499 []" 0]
    risk_tiers [of "exampleMetrics 0.95 []" 0 exampleDeviceMetrics]
  by (simp add: exampleMetrics_def)

subsection \<open>No memory of earlier ticks\<close>

lemma isTerminal_iff: "isTerminal (determineSecurityResponse now m) \<longleftrightarrow> riskScore m \<ge> 0.8"
  by (simp add: isTerminal_def determineSecurityResponse_def thresholds
      selectAuthenticationMethod_def)

lemma deviceIsTerminal_iff:
  "deviceIsTerminal (deviceDetermineSecurityResponse score dm) \<longleftrightarrow> score \<ge> 0.8"
  by (simp add: deviceIsTerminal_def deviceDetermineSecurityResponse_def)

text \<open>
  Claim C2 says that after a tick that produced the termination or the lock, no later
  tick of the session produces a lesser response. Neither engine keeps a state between
  ticks: in the example session the first record (score 0.96) locks the account and the
  second (score 0.1) gets no response at all, on the server and on the device.
\<close>

theorem later_tick_downgrades_counterexample:
  "isTerminal (sessionResponses exampleSession ! 0)
 \<and> sessionResponses exampleSession ! 1 = None
 \<and> deviceIsTerminal (deviceSessionResponses exampleDeviceSession ! 0)
 \<and> deviceSessionResponses exampleDeviceSession ! 1 = None"
  by (simp add: sessionResponses_def isTerminal_def determineSecurityResponse_def thresholds
      exampleMetrics_def exampleSession_def deviceSessionResponses_def deviceIsTerminal_def
      deviceDetermineSecurityResponse_def exampleDeviceSession_def)

text \<open>
  Claim C2, amended. After a tick \<open>i\<close> that produced the termination or the lock, a later
  tick \<open>j\<close> of the same session still gets the response of its own record alone: it is
  again a termination or a lock exactly when its own risk score is at least 0.8.
\<close>

theorem later_tick_decided_alone:
  "(i < j \<and> j < length ticks \<and> isTerminal (sessionResponses ticks ! i) \<longrightarrow>
      sessionResponses ticks ! j = determineSecurityResponse (fst (ticks ! j)) (snd (ticks ! j))
    \<and> (isTerminal (sessionResponses ticks ! j) \<longleftrightarrow> riskScore (snd (ticks ! j)) \<ge> 0.8))
 \<and> (i < j \<and> j < length dticks \<and> deviceIsTerminal (deviceSessionResponses dticks ! i) \<longrightarrow>
      deviceSessionResponses dticks ! j =
        deviceDetermineSecurityResponse (fst (dticks ! j)) (snd (dticks ! j))
    \<and> (deviceIsTerminal (deviceSessionResponses dticks ! j) \<longleftrightarrow> fst (dticks ! j) \<ge> 0.8))"
  by (simp add: sessionResponses_def deviceSessionResponses_def isTerminal_iff
      deviceIsTerminal_iff case_prod_beta)

theorem later_tick_decided_alone_witness:
  "(0::nat) < 1 \<and> 1 < length exampleSession
   \<and> isTerminal (sessionResponses exampleSession ! 0)
   \<and> \<not> isTerminal (sessionResponses exampleSession ! 1)
   \<and> 1 < length exampleDeviceSession
   \<and> deviceIsTerminal (deviceSessionResponses exampleDeviceSession ! 0)
   \<and> \<not> deviceIsTerminal (deviceSessionResponses exampleDeviceSession ! 1)"
proof -
  have a: "(0::nat) < 1" by simp
  have b: "1 < length exampleSession" "1 < length exampleDeviceSession"
    by (simp_all add: exampleSession_def exampleDeviceSession_def)
  have c: "isTerminal (sessionResponses exampleSession ! 0)"
    "deviceIsTerminal (deviceSessionResponses exampleDeviceSession ! 0)"
    by (simp_all add: sessionResponses_def isTerminal_iff exampleMetrics_def exampleSession_def
        deviceSessionResponses_def deviceIsTerminal_iff exampleDeviceSession_def)
  have d: "\<not> riskScore (snd (exampleSession ! 1)) \<ge> 0.8"
    "\<not> fst (exampleDeviceSession ! 1) \<ge> 0.8"
    by (simp_all add: exampleMetrics_def exampleSession_def exampleDeviceSession_def)
  from later_tick_decided_alone [of 0 1 exampleSession exampleDeviceSession] a b c d
  have "\<not> isTerminal (sessionResponses exampleSession ! 1)"
    "\<not> deviceIsTerminal (deviceSessionResponses exampleDeviceSession ! 1)"
    by blast+
  with a b c show ?thesis by blast
qed

subsection \<open>The medium tier\<close>

text \<open>
  Claim C5 says that for a score in \<open>[0.6, 0.8)\<close> the method of the challenge is chosen
  from the anomaly tags and that the response expires five minutes after the tick. The
  Android engine reads no tags and sets no expiry: at score 0.7 it issues the OTP
  challenge, where the claim's rule (no tag at hand, so the default) asks for the
  biometric one.
\<close>

theorem device_medium_tier_counterexample:
  "deviceDetermineSecurityResponse 0.7 exampleDeviceMetrics =
     Some \<lparr>d_type = OTP_CHALLENGE, d_severity = MEDIUM,
       d_message = ''Additional verification required.'', d_requiresUserAction = True\<rparr>"
  by (simp add: deviceDetermineSecurityResponse_def)

text \<open>
  Claim C5, amended. For a risk score in \<open>[0.6, 0.8)\<close> the server issues a challenge of
  medium severity that requires user action and expires 5 minutes (300000 ms) after the
  clock reading of the decision; its method is the silent biometric check when the tags
  contain \<open>device_anomaly\<close> or \<open>location_anomaly\<close>, otherwise the OTP challenge when they
  contain \<open>typing_anomaly\<close> or \<open>navigation_anomaly\<close>, otherwise the biometric check.
  The Android engine issues, for the same scores, the OTP challenge of medium severity
  whatever the record holds.
\<close>

theorem medium_tier_challenge:
  "0.6 \<le> riskScore m \<and> riskScore m < 0.8 \<longrightarrow>
     determineSecurityResponse now m =
       Some \<lparr>rtype =
          (if ''device_anomaly'' \<in> set (anomalyFlags m) \<or> ''location_anomaly'' \<in> set (anomalyFlags m)
           then silent_faceid
           else if ''typing_anomaly'' \<in> set (anomalyFlags m)
                 \<or> ''navigation_anomaly'' \<in> set (anomalyFlags m)
           then otp_challenge
           else silent_faceid),
         severity = medium,
         message = ''Additional verification required for security.'',
         requiresUserAction = True,
         expiresAt = Some (now + 300000)\<rparr>
   \<and> deviceDetermineSecurityResponse (riskScore m) dm =
       Some \<lparr>d_type = OTP_CHALLENGE, d_severity = MEDIUM,
         d_message = ''Additional verification required.'', d_requiresUserAction = True\<rparr>"
  by (simp add: determineSecurityResponse_def deviceDetermineSecurityResponse_def thresholds
      selectAuthenticationMethod_def)

text \<open>Three tag sets at score 0.7: device and typing together, navigation alone, none.\<close>

theorem medium_tier_challenge_witness:
  "determineSecurityResponse 1700000000000 (exampleMetrics 0.7 [''typing_anomaly'', ''device_anomaly'']) =
     Some \<lparr>rtype = silent_faceid, severity = medium,
       message = ''Additional verification required for security.'',
       requiresUserAction = True, expiresAt = Some 1700000300000\<rparr>
 \<and> determineSecurityResponse 1700000000000 (exampleMetrics 0.7 [''navigation_anomaly'']) =
     Some \<lparr>rtype = otp_challenge, severity = medium,
       message = ''Additional verification required for security.'',
       requiresUserAction = True, expiresAt = Some 1700000300000\<rparr>
 \<and> determineSecurityResponse 1700000000000 (exampleMetrics 0.7 []) =
     Some \<lparr>rtype = silent_faceid, severity = medium,
       message = ''Additional verification required for security.'',
       requiresUserAction = True, expiresAt = Some 1700000300000\<rparr>"
  using medium_tier_challenge [of "exampleMetrics 0.7 [''typing_anomaly'', ''device_anomaly'']" 1700000000000]
    medium_tier_challenge [of "exampleMetrics 0.7 [''navigation_anomaly'']" 1700000000000]
    medium_tier_challenge [of "exampleMetrics 0.7 []" 1700000000000]
  by (simp add: exampleMetrics_def)

subsection \<open>The scenario at score 0.82\<close>

text \<open>
  Claim C6 expects, for score 0.82 and the tag \<open>typing_anomaly\<close>, an OTP challenge of
  medium severity expiring after 300 seconds. The score lies in the tier from 0.8: both
  engines terminate the session, and the server's response carries no expiry.
\<close>

theorem score_082_counterexample:
  "determineSecurityResponse 1700000000000 (exampleMetrics 0.82 [''typing_anomaly'']) =
     Some \<lparr>rtype = session_termination, severity = high,
       message = ''Session terminated due to unusual activity patterns.'',
       requiresUserAction = True, expiresAt = None\<rparr>
 \<and> deviceDetermineSecurityResponse 0.82 exampleDeviceMetrics =
     Some \<lparr>d_type = SESSION_TERMINATION, d_severity = HIGH,
       d_message = ''High risk activity detected. Session terminated.'',
       d_requiresUserAction = True\<rparr>"
  by (simp add: determineSecurityResponse_def deviceDetermineSecurityResponse_def thresholds
      exampleMetrics_def)

text \<open>
  Claim C6, amended. A tick with risk score 0.82 gets the termination of the session,
  high severity, user action required and no expiry, whatever its tags. The OTP challenge
  of medium severity expiring 300 seconds after the decision is what the server answers
  to the single tag \<open>typing_anomaly\<close> at a score in \<open>[0.6, 0.8)\<close>.
\<close>

theorem score_082_terminates:
  "(riskScore m = 0.82 \<longrightarrow>
      determineSecurityResponse now m =
        Some \<lparr>rtype = session_termination, severity = high,
          message = ''Session terminated due to unusual activity patterns.'',
          requiresUserAction = True, expiresAt = None\<rparr>)
 \<and> (0.6 \<le> riskScore m \<and> riskScore m < 0.8 \<and> anomalyFlags m = [''typing_anomaly''] \<longrightarrow>
      determineSecurityResponse now m =
        Some \<lparr>rtype = otp_challenge, severity = medium,
          message = ''Additional verification required for security.'',
          requiresUserAction = True, expiresAt = Some (now + 300 * 1000)\<rparr>)"
  by (simp add: determineSecurityResponse_def thresholds selectAuthenticationMethod_def)

theorem score_082_terminates_witness:
  "riskScore (exampleMetrics 0.82 [''typing_anomaly'']) = 0.82
 \<and> severity (the (determineSecurityResponse 1700000000000 (exampleMetrics 0.82 [''typing_anomaly''])))
      = high
 \<and> 0.6 \<le> riskScore (exampleMetrics 0.72 [''typing_anomaly''])
 \<and> riskScore (exampleMetrics 0.72 [''typing_anomaly'']) < 0.8
 \<and> anomalyFlags (exampleMetrics 0.72 [''typing_anomaly'']) = [''typing_anomaly'']
 \<and> determineSecurityResponse 1700000000000 (exampleMetrics 0.72 [''typing_anomaly'']) =
        Some \<lparr>rtype = otp_challenge, severity = medium,
          message = ''Additional verification required for security.'',
          requiresUserAction = True, expiresAt = Some 1700000300000\<rparr>"
  using score_082_terminates [of "exampleMetrics 0.82 [''typing_anomaly'']" 1700000000000]
    score_082_terminates [of "exampleMetrics 0.72 [''typing_anomaly'']" 1700000000000]
  by (simp add: exampleMetrics_def)

subsection \<open>The decision reads the score and the flags only\<close>

text \<open>
  Claim C10. Two records with equal risk score and equal anomaly flags get responses
  with the same type, severity, message and user-action flag (or both get none), whatever
  their other fields and whatever the clock reads.
\<close>

theorem decision_depends_on_score_and_flags:
  "riskScore m1 = riskScore m2 \<and> anomalyFlags m1 = anomalyFlags m2 \<longrightarrow>
     map_option decision (determineSecurityResponse now1 m1)
       = map_option decision (determineSecurityResponse now2 m2)"
  by (simp add: determineSecurityResponse_def decision_def)

text \<open>
  Two records that agree on score 0.7 and the flag \<open>typing_anomaly\<close> and differ in user,
  session, feature vectors, confidence, fingerprint, hour and day, decided an hour apart.
\<close>

theorem decision_depends_on_score_and_flags_witness:
  "map_option decision (determineSecurityResponse 1700000000000 (exampleMetrics 0.7 [''typing_anomaly'']))
     = map_option decision (determineSecurityResponse 1700003600000
         ((exampleMetrics 0.7 [''typing_anomaly''])
            \<lparr>userId := ''u2'', sessionId := ''s2'', typingRhythm := replicate 10 1,
             confidenceLevel := 0.2, deviceFingerprint := ''ffff0000ffff0000'',
             timeOfDay := 3, dayOfWeek := 6\<rparr>))
 \<and> map_option decision (determineSecurityResponse 1700000000000 (exampleMetrics 0.7 [''typing_anomaly'']))
     = Some (otp_challenge, medium, ''Additional verification required for security.'', True)"
proof -
  let ?m1 = "exampleMetrics 0.7 [''typing_anomaly'']"
  let ?m2 = "?m1\<lparr>userId := ''u2'', sessionId := ''s2'', typingRhythm := replicate 10 1,
             confidenceLevel := 0.2, deviceFingerprint := ''ffff0000ffff0000'',
             timeOfDay := 3, dayOfWeek := 6\<rparr>"
  have same: "riskScore ?m1 = riskScore ?m2 \<and> anomalyFlags ?m1 = anomalyFlags ?m2"
    by simp
  have first: "map_option decision (determineSecurityResponse 1700000000000 ?m1)
      = Some (otp_challenge, medium, ''Additional verification required for security.'', True)"
    by (simp add: determineSecurityResponse_def decision_def thresholds exampleMetrics_def
        selectAuthenticationMethod_def)
  from decision_depends_on_score_and_flags [of ?m1 ?m2 1700000000000 1700003600000] same
  have "map_option decision (determineSecurityResponse 1700000000000 ?m1)
      = map_option decision (determineSecurityResponse 1700003600000 ?m2)"
    by blast
  with first show ?thesis by simp
qed

subsection \<open>Feature vectors of an empty snapshot\<close>

text \<open>
  Claim C4. On an empty snapshot each extraction returns the zero vector of its category,
  of length 10 for typing, 10 for touch, 8 for device orientation and 6 for navigation,
  and none of them throws (the only extraction with a throwing path, the orientation one,
  returns normally). A processing run on a collector with four empty buffers, in which
  the privacy manager and the data callback return, therefore ends with a record that
  holds these four vectors.
\<close>

theorem empty_snapshot_zero_vectors:
  "extractTypingRhythm [] = replicate 10 0
 \<and> extractTouchDynamics [] = replicate 10 0
 \<and> extractDeviceOrientation [] = Inr (replicate 8 0)
 \<and> extractNavigationPattern [] = replicate 6 0
 \<and> (typingEvents c = [] \<and> touchEvents c = [] \<and> sensorData c = [] \<and> navigationEvents c = []
      \<and> anonymizedUserId env = Inr uid \<and> fingerprint env = Inr fp
      \<and> (\<forall>metrics. invokeCallback env metrics = Inr ()) \<longrightarrow>
      (\<exists>metrics. snd (processCollectedData env c) = Some metrics
         \<and> d_typingRhythm metrics = [0, 0, 0, 0, 0, 0, 0, 0, 0, 0]
         \<and> d_touchDynamics metrics = [0, 0, 0, 0, 0, 0, 0, 0, 0, 0]
         \<and> d_deviceOrientation metrics = [0, 0, 0, 0, 0, 0, 0, 0]
         \<and> d_navigationPattern metrics = [0, 0, 0, 0, 0, 0]))"
  by (simp add: extractTypingRhythm_def extractTouchDynamics_def extractDeviceOrientation_def
      extractNavigationPattern_def processCollectedData_def Let_def eval_nat_numeral)

theorem empty_snapshot_zero_vectors_witness:
  "typingEvents (emptyCollector True) = [] \<and> touchEvents (emptyCollector True) = []
 \<and> sensorData (emptyCollector True) = [] \<and> navigationEvents (emptyCollector True) = []
 \<and> map_option d_typingRhythm (snd (processCollectedData exampleTickEnv (emptyCollector True)))
      = Some [0, 0, 0, 0, 0, 0, 0, 0, 0, 0]
 \<and> map_option d_deviceOrientation (snd (processCollectedData exampleTickEnv (emptyCollector True)))
      = Some [0, 0, 0, 0, 0, 0, 0, 0]
 \<and> map_option (length \<circ> d_navigationPattern)
      (snd (processCollectedData exampleTickEnv (emptyCollector True))) = Some 6"
proof -
  have empty: "typingEvents (emptyCollector True) = [] \<and> touchEvents (emptyCollector True) = []
      \<and> sensorData (emptyCollector True) = [] \<and> navigationEvents (emptyCollector True) = []"
    by (simp add: emptyCollector_def)
  have returns: "anonymizedUserId exampleTickEnv = Inr ''anon''
      \<and> fingerprint exampleTickEnv = Inr ''abcdef0123456789''
      \<and> (\<forall>metrics. invokeCallback exampleTickEnv metrics = Inr ())"
    by (simp add: exampleTickEnv_def invokeCallback_def)
  from empty returns
    empty_snapshot_zero_vectors [of "emptyCollector True" exampleTickEnv "''anon''" "''abcdef0123456789''"]
  obtain metrics where "snd (processCollectedData exampleTickEnv (emptyCollector True)) = Some metrics"
    and "d_typingRhythm metrics = [0, 0, 0, 0, 0, 0, 0, 0, 0, 0]"
    and "d_deviceOrientation metrics = [0, 0, 0, 0, 0, 0, 0, 0]"
    and "d_navigationPattern metrics = [0, 0, 0, 0, 0, 0]"
    by blast
  with empty show ?thesis by simp
qed

text \<open>The length of each vector is fixed for every snapshot, empty or not.\<close>

lemma length_extractTypingRhythm: "length (extractTypingRhythm events) = 10"
  by (simp add: extractTypingRhythm_def Let_def)

lemma length_extractTouchDynamics: "length (extractTouchDynamics events) = 10"
  by (simp add: extractTouchDynamics_def Let_def)

lemma length_extractNavigationPattern: "length (extractNavigationPattern events) = 6"
  by (simp add: extractNavigationPattern_def Let_def)

lemma length_extractDeviceOrientation:
  "extractDeviceOrientation samples = Inr v \<Longrightarrow> length v = 8"
  by (auto simp: extractDeviceOrientation_def Let_def split: if_splits sum.splits)

text \<open>
  Rounding and special values at work: \<open>2^24 + 1\<close> is not a \<^verbatim>\<open>Float\<close> and rounds to its
  even neighbour; two keystroke intervals of zero give NaN, a navigation interval of zero
  gives the positive infinity.
\<close>

lemma floor_log2:
  fixes x :: real
  assumes "2 ^ k \<le> x" and "x < 2 ^ Suc k"
  shows "\<lfloor>log 2 x\<rfloor> = int k"
proof -
  from assms(1) have pos: "0 < x"
    by (meson less_le_trans zero_less_numeral zero_less_power)
  have "real k \<le> log 2 x"
    using assms(1) pos by (simp add: le_log_iff powr_realpow)
  moreover have "log 2 x < real k + 1"
    using assms(2) pos by (simp add: log_less_iff powr_realpow powr_add)
  ultimately show ?thesis by linarith
qed

lemma toFloat_rounds: "toFloat 16777217 = 16777216" "toFloat 16777219 = 16777220"
proof -
  have "\<lfloor>log 2 \<bar>16777217::real\<bar>\<rfloor> = int 24" "\<lfloor>log 2 \<bar>16777219::real\<bar>\<rfloor> = int 24"
    by (rule floor_log2; simp)+
  then show "toFloat 16777217 = 16777216" "toFloat 16777219 = 16777220"
    by (simp_all add: toFloat_def fl_def roundHalfEven_def Let_def powr_realpow)
qed

lemma zero_intervals:
  "faverage (map fabs (zipWithNext (\<lambda>a b. fsub b a) [perSecond 0, perSecond 0])) = NaN"
  "faverage (map perSecond [0, 100]) = PosInfinity"
  by (simp_all add: faverage_def fabs_def fsub_def fadd_def fneg_def perSecond_def zipWithNext_def)

subsection \<open>Retention after a processing run\<close>




text \<open>A run either reaches the purge or leaves the collector as it was.\<close>

lemma processCollectedData_purged:
  "snd (processCollectedData env c) \<noteq> None \<Longrightarrow>
     fst (processCollectedData env c) = clearOldData (purgeTime env) c"
  by (auto simp: processCollectedData_def Let_def split: sum.splits)

lemma processCollectedData_kept:
  "snd (processCollectedData env c) = None \<Longrightarrow> fst (processCollectedData env c) = c"
  by (auto simp: processCollectedData_def Let_def split: sum.splits)





subsection \<open>The similarity service\<close>


lemma no_query_in_store: "filter isRagQuery (fst (storeAnonymizedMetrics env m)) = []"
  by (simp add: storeAnonymizedMetrics_def isRagQuery_def)



lemma no_alert_in_store: "filter isAlertCall (fst (storeAnonymizedMetrics env m)) = []"
  by (simp add: storeAnonymizedMetrics_def isAlertCall_def)


lemma storeAnonymizedMetrics_ragAnswer:
  "storeAnonymizedMetrics (env\<lparr>ragAnswer := a\<rparr>) m = storeAnonymizedMetrics env m"
  by (simp add: storeAnonymizedMetrics_def)

lemma storeAnonymizedMetrics_result:
  "snd (storeAnonymizedMetrics env m) =
     (if \<not> validTimeValue (timestamp m) then Inl InvalidTimeValue
      else if metricsInsertFails env then Inl StoreError else Inr ())"
  by (simp add: storeAnonymizedMetrics_def)










text \<open>
  A record whose time stamp lies beyond the range of a date passes the validation, and
  the call throws before any insert, query or alert.
\<close>

lemma time_stamp_out_of_range:
  "validateMetrics ((exampleMetrics 0.9 [])\<lparr>timestamp := 8640000000000001\<rparr>)
 \<and> processBehavioralMetrics exampleEnv ((exampleMetrics 0.9 [])\<lparr>timestamp := 8640000000000001\<rparr>) =
     ([LogInfo ''Processing behavioral metrics for session'',
       LogError ''Error storing anonymized metrics:'',
       LogError ''Error processing behavioral metrics:''], Inl InvalidTimeValue)"
  by (simp add: validateMetrics_def exampleMetrics_def processBehavioralMetrics_def
      storeAnonymizedMetrics_def validTimeValue_def)

subsection \<open>Buffer capacities\<close>

lemma removeAt0_Cons: "removeAt0 (x # xs) = Inr xs"
  by (simp add: removeAt0_def)

text \<open>
  The touch, keystroke and motion buffers stay within 100, 50 and 1000 entries under
  every handler call, whatever the consent answer and the clock.
\<close>

lemma ingest_caps:
  assumes "length (touchEvents c) \<le> 100" and "length (typingEvents c) \<le> 50"
    and "length (sensorData c) \<le> 1000"
  shows "length (touchEvents (ingest consent now i c)) \<le> 100
       \<and> length (typingEvents (ingest consent now i c)) \<le> 50
       \<and> length (sensorData (ingest consent now i c)) \<le> 1000"
proof (cases i)
  case (Touch ev)
  with assms show ?thesis
    by (cases "touchEvents c")
      (simp_all add: onTouchEvent_def MAX_TOUCH_EVENTS_def Let_def removeAt0_Cons)
next
  case (Typing k d f p)
  with assms show ?thesis
    by (cases "typingEvents c")
      (simp_all add: onTypingEvent_def MAX_TYPING_EVENTS_def Let_def removeAt0_Cons)
next
  case (Navigation s a d)
  with assms show ?thesis
    by (simp add: onNavigationEvent_def Let_def)
next
  case (Sensor ev)
  with assms show ?thesis
    by (cases ev; cases "sensorData c")
      (simp_all add: onSensorChanged_def Let_def removeAt0_Cons)
qed

lemma ingestAll_caps:
  "length (touchEvents c) \<le> 100 \<Longrightarrow> length (typingEvents c) \<le> 50 \<Longrightarrow>
   length (sensorData c) \<le> 1000 \<Longrightarrow>
     length (touchEvents (ingestAll calls c)) \<le> 100
   \<and> length (typingEvents (ingestAll calls c)) \<le> 50
   \<and> length (sensorData (ingestAll calls c)) \<le> 1000"
proof (induction calls arbitrary: c)
  case Nil
  then show ?case by simp
next
  case (Cons call calls)
  obtain consent now i where call: "call = (consent, now, i)"
    by (cases call) auto
  from ingest_caps [OF Cons.prems, of consent now i] Cons.IH [of "ingest consent now i c"]
  show ?case by (simp add: call)
qed

text \<open>On a full buffer the oldest entry leaves and the new one is appended.\<close>

lemma touch_fifo:
  assumes "isCollecting c" and "length (touchEvents c) = 100"
  shows "touchEvents (onTouchEvent True now ev c) =
     tl (touchEvents c) @ [\<lparr>te_timestamp = now, te_x = me_x ev, te_y = me_y ev,
        te_pressure = me_pressure ev, te_size = me_size ev,
        te_duration = me_eventTime ev - me_downTime ev, te_action = me_action ev\<rparr>]"
  using assms
  by (cases "touchEvents c")
    (simp_all add: onTouchEvent_def MAX_TOUCH_EVENTS_def Let_def removeAt0_Cons)

lemma typing_fifo:
  assumes "isCollecting c" and "length (typingEvents c) = 50"
  shows "typingEvents (onTypingEvent True now k d f p c) =
     tl (typingEvents c) @ [\<lparr>ty_timestamp = now, ty_keyCode = k, ty_dwellTime = d,
        ty_flightTime = f, ty_pressure = p\<rparr>]"
  using assms
  by (cases "typingEvents c")
    (simp_all add: onTypingEvent_def MAX_TYPING_EVENTS_def Let_def removeAt0_Cons)

lemma sensor_fifo:
  assumes "isCollecting c" and "length (sensorData c) = 1000"
  shows "sensorData (onSensorChanged now (Some ev) c) =
     tl (sensorData c) @ [\<lparr>sd_timestamp = now, sd_sensorType = se_sensorType ev,
        sd_values = se_values ev, sd_accuracy = se_accuracy ev\<rparr>]"
  using assms
  by (cases "sensorData c") (simp_all add: onSensorChanged_def Let_def removeAt0_Cons)

text \<open>The navigation buffer is only appended to: \<open>n\<close> calls add \<open>n\<close> entries.\<close>

lemma navigation_grows:
  "isCollecting c \<Longrightarrow>
     navigationEvents (ingestAll (replicate n (True, now, Navigation s a d)) c) =
       navigationEvents c @ replicate n \<lparr>nv_timestamp = now, nv_screenName = s, nv_action = a,
          nv_duration = d\<rparr>"
proof (induction n arbitrary: c)
  case 0
  then show ?case by simp
next
  case (Suc n)
  have "isCollecting (onNavigationEvent True now s a d c)"
    using Suc.prems by (simp add: onNavigationEvent_def Let_def)
  from Suc.IH [OF this] Suc.prems show ?case
    by (simp add: onNavigationEvent_def Let_def replicate_app_Cons_same)
qed

text \<open>
  Claim C3 (the code departs from it). The claim bounds every signal buffer, the
  navigation buffer included, and has the oldest entry evicted on overflow. The handlers
  of touch, keystroke and motion events do so (lemmas above); \<^verbatim>\<open>onNavigationEvent\<close>
  has no limit and never evicts: 1001 navigation events between two processing runs
  leave 1001 entries in the buffer, the first one still at its head.
\<close>

theorem navigation_buffer_unbounded:
  "length (navigationEvents
      (ingestAll (replicate 1001 (True, 1700000000000, Navigation ''home'' ''open'' 10))
         (emptyCollector True))) = 1001
 \<and> hd (navigationEvents
      (ingestAll (replicate 1001 (True, 1700000000000, Navigation ''home'' ''open'' 10))
         (emptyCollector True)))
     = \<lparr>nv_timestamp = 1700000000000, nv_screenName = ''home'', nv_action = ''open'',
         nv_duration = 10\<rparr>"
proof -
  have c: "isCollecting (emptyCollector True)" "navigationEvents (emptyCollector True) = []"
    by (simp_all add: emptyCollector_def)
  have "replicate 1001 x = x # replicate 1000 x" for x :: NavigationEvent
    by (simp add: eval_nat_numeral)
  then show ?thesis
    by (simp add: navigation_grows [OF c(1)] c(2))
qed

theorem navigation_buffer_unbounded_witness:
  "\<not> length (navigationEvents
      (ingestAll (replicate 1001 (True, 1700000000000, Navigation ''home'' ''open'' 10))
         (emptyCollector True))) \<le> 1000"
  using navigation_buffer_unbounded by simp

subsection \<open>Calls while inactive or without consent\<close>

text \<open>
  While the collector is not collecting, every handler returns the collector unchanged;
  so do the touch, keystroke and navigation handlers when consent is withdrawn.
\<close>

lemma dropped_when_inactive:
  "\<not> isCollecting c \<Longrightarrow> ingest consent now i c = c"
  by (cases i)
    (simp_all add: onTouchEvent_def onTypingEvent_def onNavigationEvent_def onSensorChanged_def)

lemma dropped_without_consent:
  "ingest False now (Touch ev) c = c"
  "ingest False now (Typing k d f p) c = c"
  "ingest False now (Navigation s a du) c = c"
  by (simp_all add: onTouchEvent_def onTypingEvent_def onNavigationEvent_def)

text \<open>
  Claim C8 (the code departs from it). The claim has every handler drop its event while
  consent is withdrawn. \<^verbatim>\<open>onSensorChanged\<close> tests the collecting flag and the null event
  only: on a collecting collector with consent withdrawn, where a touch is dropped, a
  sensor sample is stored.
\<close>

theorem sensor_sample_stored_without_consent:
  "isCollecting (emptyCollector True)
 \<and> ingest False 1700000000000 (Touch exampleMotionEvent) (emptyCollector True) = emptyCollector True
 \<and> sensorData (emptyCollector True) = []
 \<and> sensorData (ingest False 1700000000000 (Sensor (Some exampleSensorEvent)) (emptyCollector True)) =
     [\<lparr>sd_timestamp = 1700000000000, sd_sensorType = 1, sd_values = [0, 0, 9.8],
        sd_accuracy = 3\<rparr>]"
  by (simp add: onSensorChanged_def onTouchEvent_def emptyCollector_def exampleSensorEvent_def
      Let_def)

theorem sensor_sample_stored_without_consent_witness:
  "ingest False 1700000000000 (Sensor (Some exampleSensorEvent)) (emptyCollector True)
     \<noteq> emptyCollector True"
proof
  assume "ingest False 1700000000000 (Sensor (Some exampleSensorEvent)) (emptyCollector True)
     = emptyCollector True"
  then have "sensorData (ingest False 1700000000000 (Sensor (Some exampleSensorEvent))
      (emptyCollector True)) = sensorData (emptyCollector True)"
    by simp
  with sensor_sample_stored_without_consent show False
    by simp
qed

subsection \<open>Starting and stopping a session\<close>

text \<open>
  A start without consent throws and a start that succeeds leaves four empty buffers; a
  stop on a collecting collector clears them and lowers the flag, after which every
  handler call is dropped. Duplicate starts and stops change nothing.
\<close>

lemma startCollection_without_consent:
  "\<not> isCollecting c \<Longrightarrow> startCollection False sid now c = Inl SecurityException"
  by (simp add: startCollection_def)

lemma startCollection_fresh:
  assumes "\<not> isCollecting c" and "startCollection True sid now c = Inr c'"
  shows "isCollecting c' \<and> touchEvents c' = [] \<and> typingEvents c' = [] \<and> sensorData c' = []
    \<and> navigationEvents c' = [] \<and> collectorSessionId c' = sid \<and> sessionStartTime c' = now"
  using assms by (auto simp: startCollection_def clearCollectedData_def)

lemma startCollection_again: "isCollecting c \<Longrightarrow> startCollection consent sid now c = Inr c"
  by (simp add: startCollection_def)

lemma stopCollection_clears:
  assumes "isCollecting c"
  shows "\<not> isCollecting (fst (stopCollection env c))
    \<and> touchEvents (fst (stopCollection env c)) = []
    \<and> typingEvents (fst (stopCollection env c)) = []
    \<and> sensorData (fst (stopCollection env c)) = []
    \<and> navigationEvents (fst (stopCollection env c)) = []"
proof -
  let ?c = "c\<lparr>isCollecting := False\<rparr>"
  from processCollectedData_purged [of env ?c] processCollectedData_kept [of env ?c]
  have "fst (processCollectedData env ?c) = ?c
      \<or> fst (processCollectedData env ?c) = clearOldData (purgeTime env) ?c"
    by blast
  then show ?thesis
    using assms
    by (auto simp: stopCollection_def clearCollectedData_def clearOldData_def Let_def
        split: prod.splits)
qed

lemma stopCollection_again: "\<not> isCollecting c \<Longrightarrow> stopCollection env c = (c, None)"
  by (simp add: stopCollection_def)

end
